theory Spec2Isabelle
  imports Main
begin

section \<open>The keyed store behind \<open>getOrInsert\<close>\<close>

text \<open>
  \<open>getOrInsert\<close> (packages/toolkit/src/query/utils/getOrInsert.ts) takes a
  JavaScript \<open>Map<K, V>\<close> or \<open>WeakMap<K, V>\<close> and calls three of its methods:
  \<open>has\<close>, \<open>get\<close> and \<open>set\<close>. Both classes keep a list of key/value records and
  run the same three algorithms over it:
  \<^item> \<open>has(key)\<close> walks the records and answers whether one of them carries the key;
  \<^item> \<open>get(key)\<close> walks the records and yields the value of the first one that carries
    the key, and \<open>undefined\<close> when there is none;
  \<^item> \<open>set(key, value)\<close> replaces the value of the record that carries the key, where it
    stands, and appends a new record at the end when there is none; it returns the map
    object itself.

  The records are modelled as an association list in insertion order. Keys are an
  arbitrary type \<open>'k\<close> compared with HOL equality (the keys as the map's key comparison
  identifies them). The result of \<open>get\<close> is an option: \<open>None\<close> is the \<open>undefined\<close> that
  a lookup of a missing key yields, so that a stored value, whatever it is, is always
  told apart from a missing one.

  \<open>WeakMap.set\<close> alone can throw, on a key that is not an object; the signature of
  \<open>getOrInsert\<close> bounds \<open>K\<close> by \<open>object\<close> for a \<open>WeakMap\<close>, so every key of type
  \<open>'k\<close> is one the store accepts. Reclaiming the records of unreachable keys is the
  garbage collector's work and no step of \<open>getOrInsert\<close>; the key of a call is
  reachable throughout the call.
\<close>

type_synonym ('k, 'v) entries = "('k \<times> 'v) list"

fun map_has :: "('k, 'v) entries \<Rightarrow> 'k \<Rightarrow> bool" where
  "map_has [] key = False"
| "map_has ((k, v) # es) key = (if k = key then True else map_has es key)"

fun map_get :: "('k, 'v) entries \<Rightarrow> 'k \<Rightarrow> 'v option" where
  "map_get [] key = None"
| "map_get ((k, v) # es) key = (if k = key then Some v else map_get es key)"

fun map_set :: "('k, 'v) entries \<Rightarrow> 'k \<Rightarrow> 'v \<Rightarrow> ('k, 'v) entries" where
  "map_set [] key value = [(key, value)]"
| "map_set ((k, v) # es) key value =
     (if k = key then (k, value) # es else (k, v) # map_set es key value)"

text \<open>
  The function itself. The source mutates \<open>map\<close> in place and returns a value; the
  model returns the value together with the map as the call leaves it.
  \<^verbatim>\<open>
  if (map.has(key)) return map.get(key) as V
  return map.set(key, value).get(key) as V
  \<close>
  \<open>has\<close>, \<open>get\<close> and \<open>set\<close> are method calls: they run the methods of the
  object that was passed in, which is a built-in \<open>Map\<close> or \<open>WeakMap\<close> or an object
  of a class that extends one of them and may override the methods. So the object is
  modelled as a state \<open>'m\<close> together with its three methods, each a function of
  the state: \<open>has\<close> and \<open>get\<close> read it, \<open>set\<close> returns the state it leaves
  (the object returned by \<open>set\<close> is the map itself, on which \<open>get\<close> is then
  called).

  \<open>as V\<close> is a compile-time assertion with no run-time check, so what \<open>get\<close>
  yields is what the call returns: the first component is \<open>None\<close> exactly when the
  source would hand \<open>undefined\<close> from a failed lookup to its caller.
\<close>

record ('m, 'k, 'v) methods =
  has_method :: "'m \<Rightarrow> 'k \<Rightarrow> bool"
  get_method :: "'m \<Rightarrow> 'k \<Rightarrow> 'v option"
  set_method :: "'m \<Rightarrow> 'k \<Rightarrow> 'v \<Rightarrow> 'm"

definition getOrInsert_on ::
  "('m, 'k, 'v) methods \<Rightarrow> 'm \<Rightarrow> 'k \<Rightarrow> 'v \<Rightarrow> 'v option \<times> 'm" where
  "getOrInsert_on c m key value =
     (if has_method c m key then (get_method c m key, m)
      else (let m' = set_method c m key value in (get_method c m' key, m')))"

text \<open>
  The methods of the built-in classes, and \<open>getOrInsert\<close> called on a built-in
  \<open>Map\<close> or \<open>WeakMap\<close>.
\<close>

definition builtin_Map :: "(('k, 'v) entries, 'k, 'v) methods" where
  "builtin_Map = \<lparr>has_method = map_has, get_method = map_get, set_method = map_set\<rparr>"

definition getOrInsert ::
  "('k, 'v) entries \<Rightarrow> 'k \<Rightarrow> 'v \<Rightarrow> 'v option \<times> ('k, 'v) entries" where
  "getOrInsert m key value = getOrInsert_on builtin_Map m key value"

text \<open>
  The invariant of the data model: at most one record for a key.
\<close>

definition unique_keys :: "('k, 'v) entries \<Rightarrow> bool" where
  "unique_keys m = distinct (map fst m)"

section \<open>Facts about the three methods\<close>

lemma map_has_iff_get: "map_has m key = (map_get m key \<noteq> None)"
  by (induction m) (auto split: if_splits)

lemma map_has_iff_keys: "map_has m key = (key \<in> fst ` set m)"
  by (induction m) (auto split: if_splits)

lemma map_get_set_same: "map_get (map_set m key value) key = (Some value)"
  by (induction m) auto

lemma map_get_set_other: "k' \<noteq> key \<Longrightarrow> map_get (map_set m key value) k' = map_get m k'"
  by (induction m) auto

lemma map_set_absent: "\<not> map_has m key \<Longrightarrow> map_set m key value = m @ [(key, value)]"
  by (induction m) (auto split: if_splits)

lemma map_has_set_same: "map_has (map_set m key value) key"
  by (simp add: map_has_iff_get map_get_set_same)

lemma map_set_keys:
  "map fst (map_set m key value) = (if map_has m key then map fst m else map fst m @ [key])"
  by (induction m) (auto split: if_splits)

lemma getOrInsert_unfold:
  "getOrInsert m key value =
     (if map_has m key then (map_get m key, m)
      else (let m' = map_set m key value in (map_get m' key, m')))"
  by (simp add: getOrInsert_def getOrInsert_on_def builtin_Map_def)

lemma getOrInsert_hit: "map_has m key \<Longrightarrow> getOrInsert m key value = (map_get m key, m)"
  by (simp add: getOrInsert_unfold)

lemma getOrInsert_miss:
  "\<not> map_has m key \<Longrightarrow>
   getOrInsert m key value = (map_get (map_set m key value) key, map_set m key value)"
  by (simp add: getOrInsert_unfold Let_def)

lemma getOrInsert_returns:
  "fst (getOrInsert m key value) = Some (case map_get m key of None \<Rightarrow> value | Some x \<Rightarrow> x)"
proof (cases "map_get m key")
  case None
  then have "\<not> map_has m key"
    by (simp add: map_has_iff_get)
  then show ?thesis
    using None by (simp add: getOrInsert_miss map_get_set_same)
next
  case (Some x)
  then have "map_has m key"
    by (simp add: map_has_iff_get)
  then show ?thesis
    using Some by (simp add: getOrInsert_hit)
qed

lemma getOrInsert_lookup:
  "map_get (snd (getOrInsert m key value)) k' =
     (if k' = key then Some (case map_get m key of None \<Rightarrow> value | Some x \<Rightarrow> x)
      else map_get m k')"
proof (cases "map_has m key")
  case True
  then obtain x where "map_get m key = Some x"
    by (auto simp add: map_has_iff_get)
  with True show ?thesis
    by (simp add: getOrInsert_hit)
next
  case False
  then have "map_get m key = None"
    by (simp add: map_has_iff_get)
  with False show ?thesis
    by (simp add: getOrInsert_miss map_get_set_same map_get_set_other)
qed

section \<open>Properties of \<open>getOrInsert\<close>\<close>

text \<open>
  C1. For every map, key and value: after \<open>getOrInsert\<close> the map has a record for the
  key, and the value the call returned is the value a lookup of the key in the map now
  yields.
\<close>

theorem getOrInsert_present_and_return_stored:
  "map_has (snd (getOrInsert m key value)) key \<and>
   fst (getOrInsert m key value) = map_get (snd (getOrInsert m key value)) key \<and>
   (\<exists>r. map_get (snd (getOrInsert m key value)) key = Some r)"
proof (cases "map_has m key")
  case True
  then show ?thesis
    by (auto simp add: getOrInsert_unfold map_has_iff_get)
next
  case False
  then show ?thesis
    by (simp add: getOrInsert_unfold Let_def map_has_set_same map_get_set_same)
qed

text \<open>
  C2. The hit path: when the key already carries \<open>v0\<close>, the call returns \<open>v0\<close> and
  the map is the one it was; the fallback value is not stored.
\<close>

theorem getOrInsert_no_overwrite:
  assumes "map_get m key = Some v0"
  shows "getOrInsert m key v1 = (Some v0, m)"
proof -
  from assms have "map_has m key"
    by (simp add: map_has_iff_get)
  then have "getOrInsert m key v1 = (map_get m key, m)"
    by (rule getOrInsert_hit)
  with assms show ?thesis
    by simp
qed

theorem getOrInsert_no_overwrite_witness:
  "map_get [(''a'', 1::int)] ''a'' = Some 1 \<and>
   getOrInsert [(''a'', 1::int)] ''a'' 2 = (Some 1, [(''a'', 1)])"
proof -
  have h: "map_get [(''a'', 1::int)] ''a'' = Some 1"
    by simp
  from getOrInsert_no_overwrite [OF h, of 2] h show ?thesis
    by simp
qed

text \<open>
  C3. The miss path: when \<open>has\<close> answers that the key is absent, the call runs
  \<open>set(key, value)\<close> on the map and returns what \<open>get(key)\<close> then reads from
  the map that \<open>set\<close> left, whatever the methods of the map are; it does not hand
  back its argument. On a built-in map the key then carries the fallback value. The
  witness runs the call on a map whose \<open>set\<close> stores at most 100: with the fallback
  150 the call returns the stored 100, not 150.
\<close>

theorem getOrInsert_miss_inserts_and_rereads:
  "(\<not> has_method c m key \<longrightarrow>
      snd (getOrInsert_on c m key value) = set_method c m key value \<and>
      fst (getOrInsert_on c m key value) = get_method c (set_method c m key value) key) \<and>
   (\<not> map_has es k \<longrightarrow>
      snd (getOrInsert es k v) = map_set es k v \<and>
      map_get (snd (getOrInsert es k v)) k = Some v \<and>
      fst (getOrInsert es k v) = map_get (map_set es k v) k)"
proof (intro conjI impI)
  assume "\<not> has_method c m key"
  then show "snd (getOrInsert_on c m key value) = set_method c m key value"
    by (simp add: getOrInsert_on_def Let_def)
next
  assume "\<not> has_method c m key"
  then show "fst (getOrInsert_on c m key value) = get_method c (set_method c m key value) key"
    by (simp add: getOrInsert_on_def Let_def)
next
  assume "\<not> map_has es k"
  then show "snd (getOrInsert es k v) = map_set es k v"
    by (simp add: getOrInsert_miss)
next
  assume "\<not> map_has es k"
  then show "map_get (snd (getOrInsert es k v)) k = Some v"
    by (simp add: getOrInsert_miss map_get_set_same)
next
  assume "\<not> map_has es k"
  then show "fst (getOrInsert es k v) = map_get (map_set es k v) k"
    by (simp add: getOrInsert_miss)
qed

theorem getOrInsert_miss_inserts_and_rereads_witness:
  "(let c = \<lparr>has_method = map_has, get_method = map_get,
              set_method = (\<lambda>m k v. map_set m k (min v (100::int)))\<rparr>
    in \<not> has_method c [] ''k'' \<and>
       set_method c [] ''k'' 150 = [(''k'', 100)] \<and>
       getOrInsert_on c [] ''k'' 150 = (Some 100, [(''k'', 100)]) \<and>
       fst (getOrInsert_on c [] ''k'' 150) \<noteq> Some 150) \<and>
   \<not> map_has [(''a'', 1::int)] ''b'' \<and>
   getOrInsert [(''a'', 1::int)] ''b'' 2 = (Some 2, [(''a'', 1), (''b'', 2)])"
proof -
  let ?c = "\<lparr>has_method = map_has, get_method = map_get,
             set_method = (\<lambda>m k v. map_set m k (min v (100::int)))\<rparr>"
  have absent: "\<not> has_method ?c [] ''k''"
    by simp
  have stored: "set_method ?c [] ''k'' 150 = [(''k'', 100)]"
    by simp
  have absent': "\<not> map_has [(''a'', 1::int)] ''b''"
    by simp
  have stored': "map_set [(''a'', 1::int)] ''b'' 2 = [(''a'', 1), (''b'', 2)]"
    by simp
  from getOrInsert_miss_inserts_and_rereads
    [of ?c "[]" "''k''" 150 "[(''a'', 1::int)]" "''b''" 2] absent absent'
  have "snd (getOrInsert_on ?c [] ''k'' 150) = set_method ?c [] ''k'' 150"
    and "fst (getOrInsert_on ?c [] ''k'' 150) = get_method ?c (set_method ?c [] ''k'' 150) ''k''"
    and "snd (getOrInsert [(''a'', 1::int)] ''b'' 2) = map_set [(''a'', 1)] ''b'' 2"
    and "fst (getOrInsert [(''a'', 1::int)] ''b'' 2) = map_get (map_set [(''a'', 1)] ''b'' 2) ''b''"
    by blast+
  with stored stored' absent absent' show ?thesis
    by (simp add: Let_def prod_eq_iff)
qed

text \<open>
  C4. The frame of a call: the map afterwards is the map before, with one record
  \<open>(key, value)\<close> appended when the key was absent and nothing else. So no record is
  removed, no key that carried a value carries another one afterwards, and the lookup
  and the presence of every other key are as before.
\<close>

theorem getOrInsert_frame:
  "snd (getOrInsert m key value) = (if map_has m key then m else m @ [(key, value)]) \<and>
   (\<forall>k'. k' \<noteq> key \<longrightarrow>
      map_get (snd (getOrInsert m key value)) k' = map_get m k' \<and>
      map_has (snd (getOrInsert m key value)) k' = map_has m k') \<and>
   (\<forall>k' x. map_get m k' = Some x \<longrightarrow> map_get (snd (getOrInsert m key value)) k' = Some x)"
proof (intro conjI allI impI)
  show "snd (getOrInsert m key value) = (if map_has m key then m else m @ [(key, value)])"
    by (simp add: getOrInsert_hit getOrInsert_miss map_set_absent)
next
  fix k' assume "k' \<noteq> key"
  then show "map_get (snd (getOrInsert m key value)) k' = map_get m k'"
    by (simp add: getOrInsert_lookup)
next
  fix k' assume "k' \<noteq> key"
  then show "map_has (snd (getOrInsert m key value)) k' = map_has m k'"
    by (simp add: map_has_iff_get getOrInsert_lookup)
next
  fix k' x assume "map_get m k' = Some x"
  then show "map_get (snd (getOrInsert m key value)) k' = Some x"
    by (auto simp add: getOrInsert_lookup)
qed

theorem getOrInsert_frame_witness:
  "snd (getOrInsert [(''a'', 1::int)] ''b'' 2) = [(''a'', 1), (''b'', 2)] \<and>
   snd (getOrInsert [(''a'', 1::int)] ''a'' 2) = [(''a'', 1)] \<and>
   map_get (snd (getOrInsert [(''a'', 1::int)] ''b'' 2)) ''a'' = Some 1"
  using getOrInsert_frame [of "[(''a'', 1::int)]" "''b''" 2]
    getOrInsert_frame [of "[(''a'', 1::int)]" "''a''" 2]
  by simp

text \<open>
  C5. Idempotent insert: on a map without the key, a call with \<open>v\<close> followed by a
  call with a different value \<open>v2\<close> returns \<open>v\<close> both times; the second call leaves
  the map as the first one left it, and the key carries \<open>v\<close>, not \<open>v2\<close>.
\<close>

theorem getOrInsert_idempotent_insert:
  assumes absent: "\<not> map_has m key" and different: "v2 \<noteq> v"
  shows "fst (getOrInsert m key v) = Some v \<and>
         getOrInsert (snd (getOrInsert m key v)) key v2 = (Some v, snd (getOrInsert m key v)) \<and>
         map_get (snd (getOrInsert (snd (getOrInsert m key v)) key v2)) key = Some v \<and>
         map_get (snd (getOrInsert (snd (getOrInsert m key v)) key v2)) key \<noteq> Some v2"
proof -
  let ?m1 = "map_set m key v"
  have first: "getOrInsert m key v = (Some v, ?m1)"
    using absent by (simp add: getOrInsert_miss map_get_set_same)
  have "map_has ?m1 key"
    by (rule map_has_set_same)
  then have second: "getOrInsert ?m1 key v2 = (Some v, ?m1)"
    by (simp add: getOrInsert_hit map_get_set_same)
  from first second different show ?thesis
    by (simp add: map_get_set_same)
qed

theorem getOrInsert_idempotent_insert_witness:
  "\<not> map_has [(''a'', 1::int)] ''b'' \<and> (3::int) \<noteq> 2 \<and>
   fst (getOrInsert [(''a'', 1::int)] ''b'' 2) = Some 2 \<and>
   getOrInsert (snd (getOrInsert [(''a'', 1::int)] ''b'' 2)) ''b'' 3 =
     (Some 2, [(''a'', 1), (''b'', 2)])"
proof -
  have h1: "\<not> map_has [(''a'', 1::int)] ''b''"
    by simp
  have h2: "(3::int) \<noteq> 2"
    by simp
  have "snd (getOrInsert [(''a'', 1::int)] ''b'' 2) = [(''a'', 1), (''b'', 2)]"
    by (simp add: getOrInsert_unfold)
  with getOrInsert_idempotent_insert [OF h1 h2] h1 h2 show ?thesis
    by simp
qed

text \<open>
  C6. The scenario of the specification, on string keys and integer values, each call
  running on the map the call before it left: from the empty map,
  \<open>getOrInsert(m, "x", 1)\<close> returns 1 and the map holds \<open>"x" \<rightarrow> 1\<close>;
  \<open>getOrInsert(m, "x", 2)\<close> returns 1 and the map is unchanged;
  \<open>getOrInsert(m, "y", 3)\<close> returns 3 and the map holds \<open>"x" \<rightarrow> 1\<close> and
  \<open>"y" \<rightarrow> 3\<close>.
\<close>

theorem getOrInsert_scenario:
  "(case getOrInsert ([] :: (string, int) entries) ''x'' 1 of (r1, m1) \<Rightarrow>
    case getOrInsert m1 ''x'' 2 of (r2, m2) \<Rightarrow>
    case getOrInsert m2 ''y'' 3 of (r3, m3) \<Rightarrow>
      r1 = Some 1 \<and> m1 = [(''x'', 1)] \<and>
      r2 = Some 1 \<and> m2 = m1 \<and>
      r3 = Some 3 \<and> m3 = [(''x'', 1), (''y'', 3)] \<and>
      map_get m3 ''x'' = Some 1 \<and> map_get m3 ''y'' = Some 3)"
  by (simp add: getOrInsert_unfold)

text \<open>
  C7. The call is total: on every map, key and value it returns a value, never the
  \<open>undefined\<close> of a failed lookup. A key already present is the ordinary path,
  which returns the stored value and leaves the map alone; a lookup after \<open>has\<close>
  answered yes, and a lookup after \<open>set\<close>, always find a value.
\<close>

theorem getOrInsert_total:
  "(\<exists>r. fst (getOrInsert m key value) = Some r) \<and>
   (map_has m key \<longrightarrow>
      (\<exists>r. map_get m key = Some r \<and> getOrInsert m key value = (Some r, m))) \<and>
   (\<exists>r. map_get (map_set m key value) key = Some r)"
proof (intro conjI impI)
  show "\<exists>r. fst (getOrInsert m key value) = Some r"
    by (simp add: getOrInsert_returns)
next
  assume present: "map_has m key"
  then obtain r where "map_get m key = Some r"
    by (auto simp add: map_has_iff_get)
  with present show "\<exists>r. map_get m key = Some r \<and> getOrInsert m key value = (Some r, m)"
    by (simp add: getOrInsert_hit)
next
  show "\<exists>r. map_get (map_set m key value) key = Some r"
    by (simp add: map_get_set_same)
qed

theorem getOrInsert_total_witness:
  "map_has [(''a'', 1::int)] ''a'' \<and>
   (\<exists>r. fst (getOrInsert [(''a'', 1::int)] ''a'' 2) = Some r) \<and>
   (\<exists>r. map_get [(''a'', 1::int)] ''a'' = Some r \<and>
        getOrInsert [(''a'', 1::int)] ''a'' 2 = (Some r, [(''a'', 1)]))"
  using getOrInsert_total [of "[(''a'', 1::int)]" "''a''" 2]
  by simp

text \<open>
  C8. At most one record for a key: a map that satisfies this before a call satisfies
  it after the call.
\<close>

theorem getOrInsert_unique_keys:
  assumes "unique_keys m"
  shows "unique_keys (snd (getOrInsert m key value))"
proof (cases "map_has m key")
  case True
  with assms show ?thesis
    by (simp add: getOrInsert_hit)
next
  case False
  then have "key \<notin> set (map fst m)"
    by (simp add: map_has_iff_keys)
  with assms False show ?thesis
    by (simp add: getOrInsert_miss unique_keys_def map_set_keys)
qed

theorem getOrInsert_unique_keys_witness:
  "unique_keys [(''a'', 1::int), (''b'', 2)] \<and>
   unique_keys (snd (getOrInsert [(''a'', 1::int), (''b'', 2)] ''c'' 3)) \<and>
   unique_keys (snd (getOrInsert [(''a'', 1::int), (''b'', 2)] ''a'' 3))"
proof -
  have h: "unique_keys [(''a'', 1::int), (''b'', 2)]"
    by (simp add: unique_keys_def)
  from h getOrInsert_unique_keys [OF h, of "''c''" 3] getOrInsert_unique_keys [OF h, of "''a''" 3]
  show ?thesis
    by blast
qed

text \<open>
  C10. On the miss path, with the map semantics above (a lookup yields the value that
  was stored), the call returns the fallback value itself.
\<close>

theorem getOrInsert_miss_returns_fallback:
  assumes "\<not> map_has m key"
  shows "fst (getOrInsert m key value) = Some value"
proof -
  from assms have "map_get m key = None"
    by (simp add: map_has_iff_get)
  then show ?thesis
    by (simp add: getOrInsert_returns)
qed

theorem getOrInsert_miss_returns_fallback_witness:
  "\<not> map_has [(''a'', 1::int)] ''b'' \<and> fst (getOrInsert [(''a'', 1::int)] ''b'' 2) = Some 2"
proof -
  have h: "\<not> map_has [(''a'', 1::int)] ''b''"
    by simp
  from h getOrInsert_miss_returns_fallback [OF h, of 2] show ?thesis
    by blast
qed

end
